theory Spec2Isabelle
  imports Main
begin

section \<open>Values of the Go program\<close>

text \<open>
  The file under verification is \<^verbatim>\<open>internal/util/K8sUtil.go\<close>: a layer of helper methods over
  the Kubernetes client libraries. A Go \<^verbatim>\<open>string\<close> is a sequence of bytes and so is a \<^verbatim>\<open>[]byte\<close>;
  both are lists of 8-bit characters here, and the conversions \<^verbatim>\<open>[]byte(s)\<close> and \<^verbatim>\<open>string(b)\<close>
  are the identity.
\<close>

type_synonym bytes = string

subsection \<open>Errors\<close>

text \<open>
  A Go \<^verbatim>\<open>error\<close> is an interface value: \<open>None\<close> is \<^verbatim>\<open>nil\<close>. The API server's failures are
  status errors that carry a reason; every other failure (transport, URL parsing, JSON) is a
  plain message. \<^verbatim>\<open>errors.IsNotFound\<close> of package \<^verbatim>\<open>k8s.io/apimachinery/pkg/api/errors\<close> compares
  the reason of the error with \<^verbatim>\<open>StatusReasonNotFound\<close>; the reason of \<^verbatim>\<open>nil\<close> and of an error that
  is no status error is \<^verbatim>\<open>StatusReasonUnknown\<close>.
\<close>

datatype StatusReason =
    StatusReasonUnknown
  | StatusReasonUnauthorized
  | StatusReasonForbidden
  | StatusReasonNotFound
  | StatusReasonAlreadyExists
  | StatusReasonConflict
  | StatusReasonInvalid
  | StatusReasonTimeout
  | StatusReasonInternalError

datatype error =
    StatusError StatusReason int string
  | ErrorString string

fun ReasonForError :: "error option \<Rightarrow> StatusReason" where
  "ReasonForError (Some (StatusError reason code message)) = reason"
| "ReasonForError (Some (ErrorString message)) = StatusReasonUnknown"
| "ReasonForError None = StatusReasonUnknown"

definition IsNotFound :: "error option \<Rightarrow> bool" where
  "IsNotFound err = (ReasonForError err = StatusReasonNotFound)"

text \<open>A call of \<^verbatim>\<open>panic(err)\<close> ends the function without a result.\<close>

datatype 'a outcome = Return 'a | Panic error

subsection \<open>Structs\<close>

record ClusterConfig =
  Host :: string
  BearerToken :: string

record GroupVersion =
  Group :: string
  Version :: string

text \<open>\<^verbatim>\<open>serializer.NewCodecFactory(runtime.NewScheme())\<close>: the codec factory of an empty scheme.\<close>

datatype NegotiatedSerializer = CodecFactory_NewScheme

text \<open>The fields of \<^verbatim>\<open>rest.Config\<close> that the file assigns; \<open>rest_Config_zero\<close> is \<^verbatim>\<open>&rest.Config{}\<close>.\<close>

record rest_Config =
  cfg_Host :: string
  cfg_APIPath :: string
  cfg_GroupVersion :: "GroupVersion option"
  cfg_NegotiatedSerializer :: "NegotiatedSerializer option"
  cfg_BearerToken :: string
  cfg_Insecure :: bool

definition rest_Config_zero :: rest_Config where
  "rest_Config_zero =
     \<lparr>cfg_Host = [], cfg_APIPath = [], cfg_GroupVersion = None,
      cfg_NegotiatedSerializer = None, cfg_BearerToken = [], cfg_Insecure = False\<rparr>"

text \<open>
  The resources, with the fields the spec's data model names: a name and a namespace in the
  object's metadata, and a key-value payload. A field left out of a Go composite literal has its
  zero value (the empty string).
\<close>

record ObjectMeta =
  Name :: string
  Namespace :: string

record v1_Namespace =
  ns_ObjectMeta :: ObjectMeta

record v1_ConfigMap =
  cm_ObjectMeta :: ObjectMeta
  cm_Data :: "string \<rightharpoonup> string"

record v1_Secret =
  secret_ObjectMeta :: ObjectMeta
  secret_Data :: "string \<rightharpoonup> bytes"

datatype PatchType = JSONPatchType | MergePatchType | StrategicMergePatchType | ApplyPatchType

text \<open>\<^verbatim>\<open>JsonPatchType\<close> (lines 222-226); \<open>'v\<close> is the type of the values of \<^verbatim>\<open>interface{}\<close>.\<close>

record 'v JsonPatchType =
  Op :: string
  Path :: string
  Value :: 'v

text \<open>
  \<^verbatim>\<open>json.Marshal\<close> takes an \<^verbatim>\<open>interface{}\<close>; the file passes it a \<^verbatim>\<open>map[string]interface{}\<close>
  (line 183) and a \<^verbatim>\<open>[]*JsonPatchType\<close> (line 208).
\<close>

datatype 'v marshal_input =
    MapStringInterface "string \<rightharpoonup> 'v"
  | JsonPatchTypes "'v JsonPatchType list"

text \<open>
  A \<^verbatim>\<open>rest.Request\<close> as the builder calls of lines 124-129 leave it: the client it was made from,
  the verb, the resource, the namespace and the body.
\<close>

record 'r Request =
  req_client :: 'r
  req_verb :: string
  req_resource :: string
  req_namespace :: string
  req_body :: "bytes option"

subsection \<open>What the program does to the outside\<close>

text \<open>
  Every call of a client library and every line of the log is an event; the trace of a run is
  the list of its events in order. \<open>'c\<close> is the type of the typed clients
  (\<^verbatim>\<open>*v12.CoreV1Client\<close>, never \<^verbatim>\<open>nil\<close>) and \<open>'r\<close> that of the raw REST clients.
\<close>

datatype logval =
    LString string
  | LNamespace v1_Namespace
  | LError "error option"

datatype level = Debug | Info

datatype ('c, 'r) event =
    NewForConfigCall rest_Config
  | RESTClientForCall rest_Config
  | NamespacesGetCall 'c string
  | NamespacesCreateCall 'c v1_Namespace
  | NamespacesDeleteCall 'c string
  | ConfigMapsGetCall 'c string string
  | ConfigMapsUpdateCall 'c string v1_ConfigMap
  | ConfigMapsPatchCall 'c string string PatchType bytes
  | SecretsGetCall 'c string string
  | SecretsCreateCall 'c string v1_Secret
  | SecretsUpdateCall 'c string v1_Secret
  | DoRawCall "'r Request"
  | Log level string "(string \<times> logval) list"

text \<open>
  The client libraries and the cluster behind them are a parameter of the model: a record of
  the library functions the file calls, each a function of the state \<open>'w\<close> of the outside world
  (the cluster and the network) that returns its result and the next state. The result types
  are those of client-go: a constructor returns either an error or a client; a call of a typed
  client allocates the result object before the request, so that it returns an object (never
  \<^verbatim>\<open>nil\<close>) together with an error or \<^verbatim>\<open>nil\<close>; \<^verbatim>\<open>Raw\<close> returns the body read so far with an
  error or \<^verbatim>\<open>nil\<close>; \<^verbatim>\<open>json.Marshal\<close> is a pure function that returns either an error or bytes.
\<close>

record ('w, 'c, 'r, 'v) k8s =
  api_NewForConfig :: "rest_Config \<Rightarrow> 'w \<Rightarrow> (error + 'c) \<times> 'w"
  api_RESTClientFor :: "rest_Config \<Rightarrow> 'w \<Rightarrow> (error + 'r) \<times> 'w"
  api_Marshal :: "'v marshal_input \<Rightarrow> error + bytes"
  api_Namespaces_Get :: "'c \<Rightarrow> string \<Rightarrow> 'w \<Rightarrow> (v1_Namespace \<times> error option) \<times> 'w"
  api_Namespaces_Create :: "'c \<Rightarrow> v1_Namespace \<Rightarrow> 'w \<Rightarrow> (v1_Namespace \<times> error option) \<times> 'w"
  api_Namespaces_Delete :: "'c \<Rightarrow> string \<Rightarrow> 'w \<Rightarrow> error option \<times> 'w"
  api_ConfigMaps_Get :: "'c \<Rightarrow> string \<Rightarrow> string \<Rightarrow> 'w \<Rightarrow> (v1_ConfigMap \<times> error option) \<times> 'w"
  api_ConfigMaps_Update ::
    "'c \<Rightarrow> string \<Rightarrow> v1_ConfigMap \<Rightarrow> 'w \<Rightarrow> (v1_ConfigMap \<times> error option) \<times> 'w"
  api_ConfigMaps_Patch ::
    "'c \<Rightarrow> string \<Rightarrow> string \<Rightarrow> PatchType \<Rightarrow> bytes \<Rightarrow> 'w \<Rightarrow> (v1_ConfigMap \<times> error option) \<times> 'w"
  api_Secrets_Get :: "'c \<Rightarrow> string \<Rightarrow> string \<Rightarrow> 'w \<Rightarrow> (v1_Secret \<times> error option) \<times> 'w"
  api_Secrets_Create :: "'c \<Rightarrow> string \<Rightarrow> v1_Secret \<Rightarrow> 'w \<Rightarrow> (v1_Secret \<times> error option) \<times> 'w"
  api_Secrets_Update :: "'c \<Rightarrow> string \<Rightarrow> v1_Secret \<Rightarrow> 'w \<Rightarrow> (v1_Secret \<times> error option) \<times> 'w"
  api_Do_Raw :: "'r Request \<Rightarrow> 'w \<Rightarrow> (bytes \<times> error option) \<times> 'w"

text \<open>The state of a run: the outside world and the trace so far.\<close>

record ('w, 'c, 'r) state =
  world :: 'w
  trace :: "('c, 'r) event list"

definition invoke ::
  "('c, 'r) event \<Rightarrow> ('w \<Rightarrow> 'a \<times> 'w) \<Rightarrow> ('w, 'c, 'r) state \<Rightarrow> 'a \<times> ('w, 'c, 'r) state" where
  "invoke ev f s =
     (case f (world s) of (a, w) \<Rightarrow> (a, \<lparr>world = w, trace = trace s @ [ev]\<rparr>))"

definition Debugw ::
  "string \<Rightarrow> (string \<times> logval) list \<Rightarrow> ('w, 'c, 'r) state \<Rightarrow> ('w, 'c, 'r) state" where
  "Debugw msg keysAndValues s = s\<lparr>trace := trace s @ [Log Debug msg keysAndValues]\<rparr>"

definition Infow ::
  "string \<Rightarrow> (string \<times> logval) list \<Rightarrow> ('w, 'c, 'r) state \<Rightarrow> ('w, 'c, 'r) state" where
  "Infow msg keysAndValues s = s\<lparr>trace := trace s @ [Log Info msg keysAndValues]\<rparr>"

subsection \<open>The calls of the client libraries\<close>

text \<open>Each call appends its event to the trace and takes its result from the outside.\<close>

definition NewForConfig ::
  "('w, 'c, 'r, 'v) k8s \<Rightarrow> rest_Config \<Rightarrow> ('w, 'c, 'r) state \<Rightarrow> (error + 'c) \<times> ('w, 'c, 'r) state" where
  "NewForConfig k c = invoke (NewForConfigCall c) (api_NewForConfig k c)"

definition RESTClientFor ::
  "('w, 'c, 'r, 'v) k8s \<Rightarrow> rest_Config \<Rightarrow> ('w, 'c, 'r) state \<Rightarrow> (error + 'r) \<times> ('w, 'c, 'r) state" where
  "RESTClientFor k c = invoke (RESTClientForCall c) (api_RESTClientFor k c)"

definition Namespaces_Get ::
  "('w, 'c, 'r, 'v) k8s \<Rightarrow> 'c \<Rightarrow> string \<Rightarrow> ('w, 'c, 'r) state
     \<Rightarrow> (v1_Namespace \<times> error option) \<times> ('w, 'c, 'r) state" where
  "Namespaces_Get k client name =
     invoke (NamespacesGetCall client name) (api_Namespaces_Get k client name)"

definition Namespaces_Create ::
  "('w, 'c, 'r, 'v) k8s \<Rightarrow> 'c \<Rightarrow> v1_Namespace \<Rightarrow> ('w, 'c, 'r) state
     \<Rightarrow> (v1_Namespace \<times> error option) \<times> ('w, 'c, 'r) state" where
  "Namespaces_Create k client ns =
     invoke (NamespacesCreateCall client ns) (api_Namespaces_Create k client ns)"

definition Namespaces_Delete ::
  "('w, 'c, 'r, 'v) k8s \<Rightarrow> 'c \<Rightarrow> string \<Rightarrow> ('w, 'c, 'r) state
     \<Rightarrow> error option \<times> ('w, 'c, 'r) state" where
  "Namespaces_Delete k client name =
     invoke (NamespacesDeleteCall client name) (api_Namespaces_Delete k client name)"

definition ConfigMaps_Get ::
  "('w, 'c, 'r, 'v) k8s \<Rightarrow> 'c \<Rightarrow> string \<Rightarrow> string \<Rightarrow> ('w, 'c, 'r) state
     \<Rightarrow> (v1_ConfigMap \<times> error option) \<times> ('w, 'c, 'r) state" where
  "ConfigMaps_Get k client namespace name =
     invoke (ConfigMapsGetCall client namespace name) (api_ConfigMaps_Get k client namespace name)"

definition ConfigMaps_Update ::
  "('w, 'c, 'r, 'v) k8s \<Rightarrow> 'c \<Rightarrow> string \<Rightarrow> v1_ConfigMap \<Rightarrow> ('w, 'c, 'r) state
     \<Rightarrow> (v1_ConfigMap \<times> error option) \<times> ('w, 'c, 'r) state" where
  "ConfigMaps_Update k client namespace cm =
     invoke (ConfigMapsUpdateCall client namespace cm) (api_ConfigMaps_Update k client namespace cm)"

definition ConfigMaps_Patch ::
  "('w, 'c, 'r, 'v) k8s \<Rightarrow> 'c \<Rightarrow> string \<Rightarrow> string \<Rightarrow> PatchType \<Rightarrow> bytes \<Rightarrow> ('w, 'c, 'r) state
     \<Rightarrow> (v1_ConfigMap \<times> error option) \<times> ('w, 'c, 'r) state" where
  "ConfigMaps_Patch k client namespace name pt b =
     invoke (ConfigMapsPatchCall client namespace name pt b)
       (api_ConfigMaps_Patch k client namespace name pt b)"

definition Secrets_Get ::
  "('w, 'c, 'r, 'v) k8s \<Rightarrow> 'c \<Rightarrow> string \<Rightarrow> string \<Rightarrow> ('w, 'c, 'r) state
     \<Rightarrow> (v1_Secret \<times> error option) \<times> ('w, 'c, 'r) state" where
  "Secrets_Get k client namespace name =
     invoke (SecretsGetCall client namespace name) (api_Secrets_Get k client namespace name)"

definition Secrets_Create ::
  "('w, 'c, 'r, 'v) k8s \<Rightarrow> 'c \<Rightarrow> string \<Rightarrow> v1_Secret \<Rightarrow> ('w, 'c, 'r) state
     \<Rightarrow> (v1_Secret \<times> error option) \<times> ('w, 'c, 'r) state" where
  "Secrets_Create k client namespace secret =
     invoke (SecretsCreateCall client namespace secret) (api_Secrets_Create k client namespace secret)"

definition Secrets_Update ::
  "('w, 'c, 'r, 'v) k8s \<Rightarrow> 'c \<Rightarrow> string \<Rightarrow> v1_Secret \<Rightarrow> ('w, 'c, 'r) state
     \<Rightarrow> (v1_Secret \<times> error option) \<times> ('w, 'c, 'r) state" where
  "Secrets_Update k client namespace secret =
     invoke (SecretsUpdateCall client namespace secret) (api_Secrets_Update k client namespace secret)"

text \<open>The request builder of \<^verbatim>\<open>rest.RESTClient\<close>, and \<^verbatim>\<open>Do().Raw()\<close>, which sends the request.\<close>

definition Post :: "'r \<Rightarrow> 'r Request" where
  "Post client =
     \<lparr>req_client = client, req_verb = ''POST'', req_resource = [], req_namespace = [],
      req_body = None\<rparr>"

definition Resource :: "string \<Rightarrow> 'r Request \<Rightarrow> 'r Request" where
  "Resource resource r = r\<lparr>req_resource := resource\<rparr>"

definition Namespace_of :: "string \<Rightarrow> 'r Request \<Rightarrow> 'r Request" where
  "Namespace_of namespace r = r\<lparr>req_namespace := namespace\<rparr>"

definition Body :: "bytes \<Rightarrow> 'r Request \<Rightarrow> 'r Request" where
  "Body b r = r\<lparr>req_body := Some b\<rparr>"

definition Do_Raw ::
  "('w, 'c, 'r, 'v) k8s \<Rightarrow> 'r Request \<Rightarrow> ('w, 'c, 'r) state
     \<Rightarrow> (bytes \<times> error option) \<times> ('w, 'c, 'r) state" where
  "Do_Raw k r = invoke (DoRawCall r) (api_Do_Raw k r)"

section \<open>The methods of \<^verbatim>\<open>K8sUtil\<close>\<close>

text \<open>
  The receiver \<^verbatim>\<open>impl\<close> holds only the logger, whose output is part of the trace. A method that
  returns \<^verbatim>\<open>(*T, error)\<close> returns a pair of options here, as Go does: \<open>None\<close> is \<^verbatim>\<open>nil\<close>.
\<close>

definition GetClient ::
  "('w, 'c, 'r, 'v) k8s \<Rightarrow> ClusterConfig \<Rightarrow> ('w, 'c, 'r) state
     \<Rightarrow> (error + 'c) \<times> ('w, 'c, 'r) state" where
  "GetClient k clusterConfig s =
     (let cfg = rest_Config_zero;
          cfg = cfg\<lparr>cfg_Host := Host clusterConfig\<rparr>;
          cfg = cfg\<lparr>cfg_BearerToken := BearerToken clusterConfig\<rparr>;
          cfg = cfg\<lparr>cfg_Insecure := True\<rparr>
      in NewForConfig k cfg s)"

definition checkIfNsExists ::
  "('w, 'c, 'r, 'v) k8s \<Rightarrow> string \<Rightarrow> 'c \<Rightarrow> ('w, 'c, 'r) state
     \<Rightarrow> (bool \<times> error option) \<times> ('w, 'c, 'r) state" where
  "checkIfNsExists k namespace client s =
     (case Namespaces_Get k client namespace s of
        ((ns, err), s1) \<Rightarrow>
          (let s2 = Debugw ''ns fetch'' [(''name'', LString namespace), (''res'', LNamespace ns)] s1
           in if IsNotFound err then ((False, None), s2)
              else if err \<noteq> None then ((False, err), s2)
              else ((True, None), s2)))"

definition createNs ::
  "('w, 'c, 'r, 'v) k8s \<Rightarrow> string \<Rightarrow> 'c \<Rightarrow> ('w, 'c, 'r) state
     \<Rightarrow> (v1_Namespace option \<times> error option) \<times> ('w, 'c, 'r) state" where
  "createNs k namespace client s =
     (let nsSpec = \<lparr>ns_ObjectMeta = \<lparr>Name = namespace, Namespace = []\<rparr>\<rparr>
      in case Namespaces_Create k client nsSpec s of
           ((ns, err), s1) \<Rightarrow>
             if err \<noteq> None then ((None, err), s1) else ((Some ns, None), s1))"

definition CreateNsIfNotExists ::
  "('w, 'c, 'r, 'v) k8s \<Rightarrow> string \<Rightarrow> ClusterConfig \<Rightarrow> ('w, 'c, 'r) state
     \<Rightarrow> error option \<times> ('w, 'c, 'r) state" where
  "CreateNsIfNotExists k namespace clusterConfig s =
     (case GetClient k clusterConfig s of
        (Inl err, s1) \<Rightarrow> (Some err, s1)
      | (Inr client, s1) \<Rightarrow>
          (case checkIfNsExists k namespace client s1 of
             ((exists, err), s2) \<Rightarrow>
               if err \<noteq> None then (err, s2)
               else if exists then (None, s2)
               else (let s3 = Infow ''ns not exists creating'' [(''ns'', LString namespace)] s2
                     in case createNs k namespace client s3 of
                          ((ns, err), s4) \<Rightarrow> (err, s4))))"

definition deleteNs ::
  "('w, 'c, 'r, 'v) k8s \<Rightarrow> string \<Rightarrow> 'c \<Rightarrow> ('w, 'c, 'r) state
     \<Rightarrow> error option \<times> ('w, 'c, 'r) state" where
  "deleteNs k namespace client s = Namespaces_Delete k client namespace s"

definition getargoAppClient ::
  "('w, 'c, 'r, 'v) k8s \<Rightarrow> ClusterConfig \<Rightarrow> ('w, 'c, 'r) state
     \<Rightarrow> (error + 'r) \<times> ('w, 'c, 'r) state" where
  "getargoAppClient k clusterConfig s =
     (let config = rest_Config_zero;
          gv = \<lparr>Group = ''argoproj.io'', Version = ''v1alpha1''\<rparr>;
          config = config\<lparr>cfg_GroupVersion := Some gv\<rparr>;
          config = config\<lparr>cfg_APIPath := ''/apis''\<rparr>;
          config = config\<lparr>cfg_Host := Host clusterConfig\<rparr>;
          config = config\<lparr>cfg_BearerToken := BearerToken clusterConfig\<rparr>;
          config = config\<lparr>cfg_Insecure := True\<rparr>;
          config = config\<lparr>cfg_NegotiatedSerializer := Some CodecFactory_NewScheme\<rparr>
      in RESTClientFor k config s)"

definition CreateArgoApplication ::
  "('w, 'c, 'r, 'v) k8s \<Rightarrow> string \<Rightarrow> string \<Rightarrow> ClusterConfig \<Rightarrow> ('w, 'c, 'r) state
     \<Rightarrow> error option \<times> ('w, 'c, 'r) state" where
  "CreateArgoApplication k namespace application clusterConfig s =
     (case getargoAppClient k clusterConfig s of
        (Inl err, s1) \<Rightarrow> (Some err, s1)
      | (Inr client, s1) \<Rightarrow>
          (let s2 = Infow ''creating application'' [(''req'', LString application)] s1
           in case Do_Raw k
                  (Body application (Namespace_of namespace (Resource ''applications'' (Post client))))
                  s2 of
                ((res, err), s3) \<Rightarrow>
                  (let s4 = Infow ''argo app create res'' [(''res'', LString res), (''err'', LError err)] s3
                   in (err, s4))))"

definition GetConfigMap ::
  "('w, 'c, 'r, 'v) k8s \<Rightarrow> string \<Rightarrow> string \<Rightarrow> ClusterConfig \<Rightarrow> ('w, 'c, 'r) state
     \<Rightarrow> (v1_ConfigMap option \<times> error option) \<times> ('w, 'c, 'r) state" where
  "GetConfigMap k namespace name clusterConfig s =
     (case GetClient k clusterConfig s of
        (Inl err, s1) \<Rightarrow> ((None, Some err), s1)
      | (Inr client, s1) \<Rightarrow>
          (case ConfigMaps_Get k client namespace name s1 of
             ((cm, err), s2) \<Rightarrow>
               if err \<noteq> None then ((None, err), s2) else ((Some cm, None), s2)))"

definition GetConfigMapFast ::
  "('w, 'c, 'r, 'v) k8s \<Rightarrow> string \<Rightarrow> string \<Rightarrow> 'c \<Rightarrow> ('w, 'c, 'r) state
     \<Rightarrow> (v1_ConfigMap option \<times> error option) \<times> ('w, 'c, 'r) state" where
  "GetConfigMapFast k namespace name client s =
     (case ConfigMaps_Get k client namespace name s of
        ((cm, err), s1) \<Rightarrow>
          if err \<noteq> None then ((None, err), s1) else ((Some cm, None), s1))"

definition UpdateConfigMap ::
  "('w, 'c, 'r, 'v) k8s \<Rightarrow> string \<Rightarrow> v1_ConfigMap \<Rightarrow> ClusterConfig \<Rightarrow> ('w, 'c, 'r) state
     \<Rightarrow> (v1_ConfigMap option \<times> error option) \<times> ('w, 'c, 'r) state" where
  "UpdateConfigMap k namespace cm clusterConfig s =
     (case GetClient k clusterConfig s of
        (Inl err, s1) \<Rightarrow> ((None, Some err), s1)
      | (Inr client, s1) \<Rightarrow>
          (case ConfigMaps_Update k client namespace cm s1 of
             ((cm, err), s2) \<Rightarrow>
               if err \<noteq> None then ((None, err), s2) else ((Some cm, None), s2)))"

definition UpdateConfigMapFast ::
  "('w, 'c, 'r, 'v) k8s \<Rightarrow> string \<Rightarrow> v1_ConfigMap \<Rightarrow> 'c \<Rightarrow> ('w, 'c, 'r) state
     \<Rightarrow> (v1_ConfigMap option \<times> error option) \<times> ('w, 'c, 'r) state" where
  "UpdateConfigMapFast k namespace cm client s =
     (case ConfigMaps_Update k client namespace cm s of
        ((cm, err), s1) \<Rightarrow>
          if err \<noteq> None then ((None, err), s1) else ((Some cm, None), s1))"

definition PatchConfigMap ::
  "('w, 'c, 'r, 'v) k8s \<Rightarrow> string \<Rightarrow> ClusterConfig \<Rightarrow> string \<Rightarrow> (string \<rightharpoonup> 'v)
     \<Rightarrow> ('w, 'c, 'r) state
     \<Rightarrow> (v1_ConfigMap option \<times> error option) outcome \<times> ('w, 'c, 'r) state" where
  "PatchConfigMap k namespace clusterConfig name data s =
     (case GetClient k clusterConfig s of
        (Inl err, s1) \<Rightarrow> (Return (None, Some err), s1)
      | (Inr client, s1) \<Rightarrow>
          (case api_Marshal k (MapStringInterface data) of
             Inl err \<Rightarrow> (Panic err, s1)
           | Inr b \<Rightarrow>
               (case ConfigMaps_Patch k client namespace name MergePatchType b s1 of
                  ((cm, err), s2) \<Rightarrow>
                    if err \<noteq> None then (Return (None, err), s2)
                    else (Return (Some cm, None), s2))))"

definition PatchConfigMapJsonType ::
  "('w, 'c, 'r, 'v) k8s \<Rightarrow> string \<Rightarrow> ClusterConfig \<Rightarrow> string \<Rightarrow> 'v \<Rightarrow> string
     \<Rightarrow> ('w, 'c, 'r) state
     \<Rightarrow> (v1_ConfigMap option \<times> error option) outcome \<times> ('w, 'c, 'r) state" where
  "PatchConfigMapJsonType k namespace clusterConfig name data path s =
     (case GetClient k clusterConfig s of
        (Inl err, s1) \<Rightarrow> (Return (None, Some err), s1)
      | (Inr client, s1) \<Rightarrow>
          (let patches = [];
               patch = \<lparr>Op = ''replace'', Path = path, Value = data\<rparr>;
               patches = patches @ [patch]
           in case api_Marshal k (JsonPatchTypes patches) of
                Inl err \<Rightarrow> (Panic err, s1)
              | Inr b \<Rightarrow>
                  (case ConfigMaps_Patch k client namespace name JSONPatchType b s1 of
                     ((cm, err), s2) \<Rightarrow>
                       if err \<noteq> None then (Return (None, err), s2)
                       else (Return (Some cm, None), s2))))"

definition GetSecretFast ::
  "('w, 'c, 'r, 'v) k8s \<Rightarrow> string \<Rightarrow> string \<Rightarrow> 'c \<Rightarrow> ('w, 'c, 'r) state
     \<Rightarrow> (v1_Secret option \<times> error option) \<times> ('w, 'c, 'r) state" where
  "GetSecretFast k namespace name client s =
     (case Secrets_Get k client namespace name s of
        ((cm, err), s1) \<Rightarrow>
          if err \<noteq> None then ((None, err), s1) else ((Some cm, None), s1))"

definition CreateSecretFast ::
  "('w, 'c, 'r, 'v) k8s \<Rightarrow> string \<Rightarrow> string \<Rightarrow> string \<Rightarrow> 'c \<Rightarrow> ('w, 'c, 'r) state
     \<Rightarrow> (v1_Secret option \<times> error option) \<times> ('w, 'c, 'r) state" where
  "CreateSecretFast k namespace username password client s =
     (let secret =
            \<lparr>secret_ObjectMeta = \<lparr>Name = ''devtron-secret-test'', Namespace = []\<rparr>,
             secret_Data = Map.empty\<rparr>
      in case Secrets_Create k client namespace secret s of
           ((secret, err), s1) \<Rightarrow>
             if err \<noteq> None then ((None, err), s1) else ((Some secret, None), s1))"

definition UpdateSecretFast ::
  "('w, 'c, 'r, 'v) k8s \<Rightarrow> string \<Rightarrow> v1_Secret \<Rightarrow> 'c \<Rightarrow> ('w, 'c, 'r) state
     \<Rightarrow> (v1_Secret option \<times> error option) \<times> ('w, 'c, 'r) state" where
  "UpdateSecretFast k namespace cm client s =
     (case Secrets_Update k client namespace cm s of
        ((cm, err), s1) \<Rightarrow>
          if err \<noteq> None then ((None, err), s1) else ((Some cm, None), s1))"

section \<open>Reading a run\<close>

text \<open>The calls of a trace: its events without the lines of the log.\<close>

fun is_Log :: "('c, 'r) event \<Rightarrow> bool" where
  "is_Log (Log l msg keysAndValues) = True"
| "is_Log e = False"

definition calls :: "('c, 'r) event list \<Rightarrow> ('c, 'r) event list" where
  "calls tr = filter (\<lambda>e. \<not> is_Log e) tr"

text \<open>Of a returned pair \<^verbatim>\<open>(*T, error)\<close>, exactly one component is not \<^verbatim>\<open>nil\<close>.\<close>

definition exactly_one_non_nil :: "'a option \<times> error option \<Rightarrow> bool" where
  "exactly_one_non_nil r = ((fst r = None) \<noteq> (snd r = None))"

section \<open>A fake cluster\<close>

text \<open>
  The properties below hold for every cluster and every library behaviour of the types above.
  The examples that follow them run the methods against this fake one.
\<close>

text \<open>
  The Go values of the examples: strings, and channels (which \<^verbatim>\<open>json.Marshal\<close> refuses). The
  fake encoder writes JSON without its quotes; of a mapping it reads the key \<^verbatim>\<open>key\<close> only.
\<close>

datatype gvalue = GString string | GChan

definition unsupported :: error where
  "unsupported = ErrorString ''json: unsupported type: chan int''"

fun fake_value :: "gvalue \<Rightarrow> error + bytes" where
  "fake_value (GString v) = Inr v"
| "fake_value GChan = Inl unsupported"

fun fake_patches :: "gvalue JsonPatchType list \<Rightarrow> error + bytes" where
  "fake_patches [] = Inr []"
| "fake_patches (p # ps) =
     (case fake_value (Value p) of
        Inl e \<Rightarrow> Inl e
      | Inr v \<Rightarrow>
          (case fake_patches ps of
             Inl e \<Rightarrow> Inl e
           | Inr rest \<Rightarrow>
               Inr (''{op:'' @ Op p @ '',path:'' @ Path p @ '',value:'' @ v @ ''}'' @ rest)))"

definition fake_Marshal :: "gvalue marshal_input \<Rightarrow> error + bytes" where
  "fake_Marshal v =
     (case v of
        MapStringInterface m \<Rightarrow>
          (case m ''key'' of
             None \<Rightarrow> Inr ''{}''
           | Some x \<Rightarrow>
               (case fake_value x of Inl e \<Rightarrow> Inl e | Inr b \<Rightarrow> Inr (''{key:'' @ b @ ''}'')))
      | JsonPatchTypes ps \<Rightarrow>
          (case fake_patches ps of Inl e \<Rightarrow> Inl e | Inr b \<Rightarrow> Inr (''['' @ b @ '']'')))"

definition not_found :: "string \<Rightarrow> error" where
  "not_found name = StatusError StatusReasonNotFound 404 (name @ '' not found'')"

text \<open>
  The outside world of \<open>fake_k8s\<close> is the list of the namespaces of the cluster. Every namespace
  holds one config map, \<^verbatim>\<open>devtron-cm\<close>, and one secret, \<^verbatim>\<open>devtron-secret\<close>. A client is the host
  it talks to; a host with a \<^verbatim>\<open>%\<close> in it does not parse as a URL, and no client is built for it.
\<close>

definition fake_k8s :: "(string list, string, string, gvalue) k8s" where
  "fake_k8s =
     \<lparr>api_NewForConfig = (\<lambda>c w.
        (if CHR ''%'' \<in> set (cfg_Host c) then Inl (ErrorString ''invalid URL escape'')
         else Inr (cfg_Host c), w)),
      api_RESTClientFor = (\<lambda>c w.
        (if CHR ''%'' \<in> set (cfg_Host c) then Inl (ErrorString ''invalid URL escape'')
         else Inr (cfg_Host c @ cfg_APIPath c), w)),
      api_Marshal = fake_Marshal,
      api_Namespaces_Get = (\<lambda>c name w.
        (if name = [] then (\<lparr>ns_ObjectMeta = \<lparr>Name = [], Namespace = []\<rparr>\<rparr>,
             Some (ErrorString ''resource name may not be empty''))
         else if name \<in> set w then (\<lparr>ns_ObjectMeta = \<lparr>Name = name, Namespace = []\<rparr>\<rparr>, None)
         else (\<lparr>ns_ObjectMeta = \<lparr>Name = [], Namespace = []\<rparr>\<rparr>, Some (not_found name)), w)),
      api_Namespaces_Create = (\<lambda>c ns w.
        if Name (ns_ObjectMeta ns) \<in> set w
        then ((\<lparr>ns_ObjectMeta = \<lparr>Name = [], Namespace = []\<rparr>\<rparr>,
               Some (StatusError StatusReasonAlreadyExists 409 ''already exists'')), w)
        else ((ns, None), w @ [Name (ns_ObjectMeta ns)])),
      api_Namespaces_Delete = (\<lambda>c name w.
        if name \<in> set w then (None, removeAll name w) else (Some (not_found name), w)),
      api_ConfigMaps_Get = (\<lambda>c namespace name w.
        (if namespace \<in> set w \<and> name = ''devtron-cm''
         then (\<lparr>cm_ObjectMeta = \<lparr>Name = name, Namespace = namespace\<rparr>, cm_Data = Map.empty\<rparr>, None)
         else (\<lparr>cm_ObjectMeta = \<lparr>Name = [], Namespace = []\<rparr>, cm_Data = Map.empty\<rparr>,
               Some (not_found name)), w)),
      api_ConfigMaps_Update = (\<lambda>c namespace cm w.
        (if namespace \<in> set w \<and> Name (cm_ObjectMeta cm) = ''devtron-cm'' then (cm, None)
         else (\<lparr>cm_ObjectMeta = \<lparr>Name = [], Namespace = []\<rparr>, cm_Data = Map.empty\<rparr>,
               Some (not_found (Name (cm_ObjectMeta cm)))), w)),
      api_ConfigMaps_Patch = (\<lambda>c namespace name pt b w.
        (if namespace \<in> set w \<and> name = ''devtron-cm''
         then (\<lparr>cm_ObjectMeta = \<lparr>Name = name, Namespace = namespace\<rparr>, cm_Data = Map.empty\<rparr>, None)
         else (\<lparr>cm_ObjectMeta = \<lparr>Name = [], Namespace = []\<rparr>, cm_Data = Map.empty\<rparr>,
               Some (not_found name)), w)),
      api_Secrets_Get = (\<lambda>c namespace name w.
        (if namespace \<in> set w \<and> name = ''devtron-secret''
         then (\<lparr>secret_ObjectMeta = \<lparr>Name = name, Namespace = namespace\<rparr>, secret_Data = Map.empty\<rparr>,
               None)
         else (\<lparr>secret_ObjectMeta = \<lparr>Name = [], Namespace = []\<rparr>, secret_Data = Map.empty\<rparr>,
               Some (not_found name)), w)),
      api_Secrets_Create = (\<lambda>c namespace secret w.
        (if namespace \<in> set w
         then (secret\<lparr>secret_ObjectMeta := \<lparr>Name = Name (secret_ObjectMeta secret), Namespace = namespace\<rparr>\<rparr>,
               None)
         else (\<lparr>secret_ObjectMeta = \<lparr>Name = [], Namespace = []\<rparr>, secret_Data = Map.empty\<rparr>,
               Some (not_found namespace)), w)),
      api_Secrets_Update = (\<lambda>c namespace secret w.
        (if namespace \<in> set w \<and> Name (secret_ObjectMeta secret) = ''devtron-secret''
         then (secret, None)
         else (\<lparr>secret_ObjectMeta = \<lparr>Name = [], Namespace = []\<rparr>, secret_Data = Map.empty\<rparr>,
               Some (not_found (Name (secret_ObjectMeta secret)))), w)),
      api_Do_Raw = (\<lambda>r w.
        (if req_namespace r \<in> set w then ((case req_body r of None \<Rightarrow> [] | Some b \<Rightarrow> b), None)
         else (''namespace not found'', Some (not_found (req_namespace r))), w))\<rparr>"

text \<open>The inputs of the examples: a cluster with the namespace \<^verbatim>\<open>default\<close> and an empty trace.\<close>

definition demo_config :: ClusterConfig where
  "demo_config = \<lparr>Host = ''cluster.local'', BearerToken = ''token''\<rparr>"

definition bad_config :: ClusterConfig where
  "bad_config = \<lparr>Host = ''%'', BearerToken = ''token''\<rparr>"

definition demo_state :: "(string list, string, string) state" where
  "demo_state = \<lparr>world = [''default''], trace = []\<rparr>"

definition demo_cm :: v1_ConfigMap where
  "demo_cm =
     \<lparr>cm_ObjectMeta = \<lparr>Name = ''devtron-cm'', Namespace = ''default''\<rparr>, cm_Data = Map.empty\<rparr>"

definition demo_secret :: v1_Secret where
  "demo_secret =
     \<lparr>secret_ObjectMeta = \<lparr>Name = ''devtron-secret'', Namespace = ''default''\<rparr>,
      secret_Data = Map.empty\<rparr>"

section \<open>Properties\<close>

lemmas call_defs =
  invoke_def NewForConfig_def RESTClientFor_def Namespaces_Get_def Namespaces_Create_def
  Namespaces_Delete_def ConfigMaps_Get_def ConfigMaps_Update_def ConfigMaps_Patch_def
  Secrets_Get_def Secrets_Create_def Secrets_Update_def Do_Raw_def Debugw_def Infow_def

lemmas demo_defs =
  fake_k8s_def fake_Marshal_def unsupported_def demo_config_def bad_config_def demo_state_def
  demo_cm_def demo_secret_def not_found_def

lemma GetClient_eq:
  "GetClient k clusterConfig s =
     NewForConfig k
       \<lparr>cfg_Host = Host clusterConfig, cfg_APIPath = [], cfg_GroupVersion = None,
        cfg_NegotiatedSerializer = None, cfg_BearerToken = BearerToken clusterConfig,
        cfg_Insecure = True\<rparr> s"
  by (simp add: GetClient_def rest_Config_zero_def)

lemma checkIfNsExists_calls:
  "checkIfNsExists k namespace client s1 = (r, s2) \<Longrightarrow>
     calls (trace s2) = calls (trace s1) @ [NamespacesGetCall client namespace]"
  by (auto simp: checkIfNsExists_def calls_def call_defs Let_def split: prod.splits if_splits)

subsection \<open>Creating a namespace\<close>

text \<open>
  C1, as the claim states it, fails: for a cluster config for which no client can be built,
  \<open>CreateNsIfNotExists\<close> returns the error of the construction (lines 58-61) and never checks
  whether the namespace exists. The trace of the run holds the construction and nothing else.
\<close>

theorem CreateNsIfNotExists_no_check_without_client:
  "CreateNsIfNotExists fake_k8s ''dev'' bad_config demo_state =
     (Some (ErrorString ''invalid URL escape''),
      \<lparr>world = [''default''],
       trace =
         [NewForConfigCall
            \<lparr>cfg_Host = ''%'', cfg_APIPath = [], cfg_GroupVersion = None,
             cfg_NegotiatedSerializer = None, cfg_BearerToken = ''token'',
             cfg_Insecure = True\<rparr>]\<rparr>)"
  by (simp add: CreateNsIfNotExists_def GetClient_eq call_defs demo_defs)

text \<open>
  C1, amended: when the construction of the client fails, \<open>CreateNsIfNotExists\<close> returns its
  error in the state the construction left, without a call on the namespace. When it gives a
  client, the next call is the existence check on that client, for the given namespace; if the
  check returns an error, that error is returned; if the check reports that the namespace
  exists, the result is \<^verbatim>\<open>nil\<close> in the state the check left (no create call); if it reports
  that the namespace does not exist, exactly one create call follows, on the same client and for
  a namespace of the given name, and its error is the result.
\<close>

theorem CreateNsIfNotExists_checks_then_creates:
  "(GetClient k clusterConfig s = (Inl e, s1) \<longrightarrow>
      CreateNsIfNotExists k namespace clusterConfig s = (Some e, s1)) \<and>
   (GetClient k clusterConfig s = (Inr client, s1) \<and>
    checkIfNsExists k namespace client s1 = ((exists, err), s2) \<longrightarrow>
      calls (trace s2) = calls (trace s1) @ [NamespacesGetCall client namespace] \<and>
      (err \<noteq> None \<longrightarrow> CreateNsIfNotExists k namespace clusterConfig s = (err, s2)) \<and>
      (err = None \<and> exists \<longrightarrow> CreateNsIfNotExists k namespace clusterConfig s = (None, s2)) \<and>
      (err = None \<and> \<not> exists \<longrightarrow>
         fst (CreateNsIfNotExists k namespace clusterConfig s) =
           snd (fst (api_Namespaces_Create k client
                  \<lparr>ns_ObjectMeta = \<lparr>Name = namespace, Namespace = []\<rparr>\<rparr> (world s2))) \<and>
         calls (trace (snd (CreateNsIfNotExists k namespace clusterConfig s))) =
           calls (trace s2) @
             [NamespacesCreateCall client \<lparr>ns_ObjectMeta = \<lparr>Name = namespace, Namespace = []\<rparr>\<rparr>]))"
proof (intro conjI impI)
  assume "GetClient k clusterConfig s = (Inl e, s1)"
  then show "CreateNsIfNotExists k namespace clusterConfig s = (Some e, s1)"
    by (simp add: CreateNsIfNotExists_def)
next
  assume a: "GetClient k clusterConfig s = (Inr client, s1) \<and>
    checkIfNsExists k namespace client s1 = ((exists, err), s2)"
  then show "calls (trace s2) = calls (trace s1) @ [NamespacesGetCall client namespace]"
    by (blast dest: checkIfNsExists_calls)
  {
    assume "err \<noteq> None"
    with a show "CreateNsIfNotExists k namespace clusterConfig s = (err, s2)"
      by (simp add: CreateNsIfNotExists_def)
  }
  {
    assume "err = None \<and> exists"
    with a show "CreateNsIfNotExists k namespace clusterConfig s = (None, s2)"
      by (simp add: CreateNsIfNotExists_def)
  }
  {
    assume b: "err = None \<and> \<not> exists"
    with a show "fst (CreateNsIfNotExists k namespace clusterConfig s) =
           snd (fst (api_Namespaces_Create k client
                  \<lparr>ns_ObjectMeta = \<lparr>Name = namespace, Namespace = []\<rparr>\<rparr> (world s2)))"
      by (simp add: CreateNsIfNotExists_def createNs_def call_defs Let_def split: prod.splits)
    from a b show "calls (trace (snd (CreateNsIfNotExists k namespace clusterConfig s))) =
           calls (trace s2) @
             [NamespacesCreateCall client \<lparr>ns_ObjectMeta = \<lparr>Name = namespace, Namespace = []\<rparr>\<rparr>]"
      by (auto simp: CreateNsIfNotExists_def createNs_def call_defs calls_def Let_def
               split: prod.splits)
  }
qed

text \<open>
  On the fake cluster, which has the namespace \<^verbatim>\<open>default\<close> and not \<^verbatim>\<open>dev\<close>: no check for the
  host that does not parse; a check and no create for \<^verbatim>\<open>default\<close>; a check and one create for
  \<^verbatim>\<open>dev\<close>; the error of the check for the empty name.
\<close>

theorem CreateNsIfNotExists_checks_then_creates_witness:
  "fst (GetClient fake_k8s bad_config demo_state) = Inl (ErrorString ''invalid URL escape'') \<and>
   fst (CreateNsIfNotExists fake_k8s ''dev'' bad_config demo_state) =
     Some (ErrorString ''invalid URL escape'') \<and>
   fst (GetClient fake_k8s demo_config demo_state) = Inr ''cluster.local'' \<and>
   fst (checkIfNsExists fake_k8s ''default'' ''cluster.local''
          (snd (GetClient fake_k8s demo_config demo_state))) = (True, None) \<and>
   fst (CreateNsIfNotExists fake_k8s ''default'' demo_config demo_state) = None \<and>
   calls (trace (snd (CreateNsIfNotExists fake_k8s ''default'' demo_config demo_state))) =
     [NewForConfigCall
        \<lparr>cfg_Host = ''cluster.local'', cfg_APIPath = [], cfg_GroupVersion = None,
         cfg_NegotiatedSerializer = None, cfg_BearerToken = ''token'', cfg_Insecure = True\<rparr>,
      NamespacesGetCall ''cluster.local'' ''default''] \<and>
   fst (checkIfNsExists fake_k8s ''dev'' ''cluster.local''
          (snd (GetClient fake_k8s demo_config demo_state))) = (False, None) \<and>
   fst (CreateNsIfNotExists fake_k8s ''dev'' demo_config demo_state) = None \<and>
   calls (trace (snd (CreateNsIfNotExists fake_k8s ''dev'' demo_config demo_state))) =
     [NewForConfigCall
        \<lparr>cfg_Host = ''cluster.local'', cfg_APIPath = [], cfg_GroupVersion = None,
         cfg_NegotiatedSerializer = None, cfg_BearerToken = ''token'', cfg_Insecure = True\<rparr>,
      NamespacesGetCall ''cluster.local'' ''dev'',
      NamespacesCreateCall ''cluster.local'' \<lparr>ns_ObjectMeta = \<lparr>Name = ''dev'', Namespace = []\<rparr>\<rparr>] \<and>
   world (snd (CreateNsIfNotExists fake_k8s ''dev'' demo_config demo_state)) = [''default'', ''dev''] \<and>
   fst (checkIfNsExists fake_k8s [] ''cluster.local''
          (snd (GetClient fake_k8s demo_config demo_state))) =
     (False, Some (ErrorString ''resource name may not be empty'')) \<and>
   fst (CreateNsIfNotExists fake_k8s [] demo_config demo_state) =
     Some (ErrorString ''resource name may not be empty'')"
  using
    CreateNsIfNotExists_checks_then_creates
      [of fake_k8s bad_config demo_state "ErrorString ''invalid URL escape''"
          "snd (GetClient fake_k8s bad_config demo_state)" "''dev''"]
    CreateNsIfNotExists_checks_then_creates
      [of fake_k8s demo_config demo_state _ "snd (GetClient fake_k8s demo_config demo_state)"
          "''default''" "''cluster.local''" True None
          "snd (checkIfNsExists fake_k8s ''default'' ''cluster.local''
                  (snd (GetClient fake_k8s demo_config demo_state)))"]
    CreateNsIfNotExists_checks_then_creates
      [of fake_k8s demo_config demo_state _ "snd (GetClient fake_k8s demo_config demo_state)"
          "''dev''" "''cluster.local''" False None
          "snd (checkIfNsExists fake_k8s ''dev'' ''cluster.local''
                  (snd (GetClient fake_k8s demo_config demo_state)))"]
    CreateNsIfNotExists_checks_then_creates
      [of fake_k8s demo_config demo_state _ "snd (GetClient fake_k8s demo_config demo_state)"
          "[]" "''cluster.local''" False "Some (ErrorString ''resource name may not be empty'')"
          "snd (checkIfNsExists fake_k8s [] ''cluster.local''
                  (snd (GetClient fake_k8s demo_config demo_state)))"]
  by (simp add: CreateNsIfNotExists_def checkIfNsExists_def createNs_def GetClient_eq
        IsNotFound_def calls_def Let_def call_defs demo_defs)

subsection \<open>The existence check\<close>

text \<open>
  C2: whatever the get of the namespace returns, \<open>checkIfNsExists\<close> answers \<open>(False, nil)\<close>
  when the error is a not-found error, \<open>(False, err)\<close> with the error unchanged when it is any
  other error, and \<open>(True, nil)\<close> when there is no error.
\<close>

theorem checkIfNsExists_classifies:
  "api_Namespaces_Get k client namespace (world s) = ((ns, err), w) \<Longrightarrow>
     (IsNotFound err \<longrightarrow> fst (checkIfNsExists k namespace client s) = (False, None)) \<and>
     (err \<noteq> None \<and> \<not> IsNotFound err \<longrightarrow>
        fst (checkIfNsExists k namespace client s) = (False, err)) \<and>
     (err = None \<longrightarrow> fst (checkIfNsExists k namespace client s) = (True, None))"
  by (simp add: checkIfNsExists_def Namespaces_Get_def invoke_def IsNotFound_def Let_def)

text \<open>
  On the fake cluster: \<^verbatim>\<open>dev\<close> is not found, the empty name is refused before the request, and
  \<^verbatim>\<open>default\<close> is there.
\<close>

theorem checkIfNsExists_classifies_witness:
  "IsNotFound (snd (fst (api_Namespaces_Get fake_k8s ''cluster.local'' ''dev'' (world demo_state)))) \<and>
   fst (checkIfNsExists fake_k8s ''dev'' ''cluster.local'' demo_state) = (False, None) \<and>
   snd (fst (api_Namespaces_Get fake_k8s ''cluster.local'' [] (world demo_state))) =
     Some (ErrorString ''resource name may not be empty'') \<and>
   \<not> IsNotFound (Some (ErrorString ''resource name may not be empty'')) \<and>
   fst (checkIfNsExists fake_k8s [] ''cluster.local'' demo_state) =
     (False, Some (ErrorString ''resource name may not be empty'')) \<and>
   snd (fst (api_Namespaces_Get fake_k8s ''cluster.local'' ''default'' (world demo_state))) = None \<and>
   fst (checkIfNsExists fake_k8s ''default'' ''cluster.local'' demo_state) = (True, None)"
  using
    checkIfNsExists_classifies
      [of fake_k8s "''cluster.local''" "''dev''" demo_state
          "\<lparr>ns_ObjectMeta = \<lparr>Name = [], Namespace = []\<rparr>\<rparr>" "Some (not_found ''dev'')"
          "[''default'']"]
    checkIfNsExists_classifies
      [of fake_k8s "''cluster.local''" "[]" demo_state
          "\<lparr>ns_ObjectMeta = \<lparr>Name = [], Namespace = []\<rparr>\<rparr>"
          "Some (ErrorString ''resource name may not be empty'')" "[''default'']"]
    checkIfNsExists_classifies
      [of fake_k8s "''cluster.local''" "''default''" demo_state
          "\<lparr>ns_ObjectMeta = \<lparr>Name = ''default'', Namespace = []\<rparr>\<rparr>" None "[''default'']"]
  by (simp add: checkIfNsExists_def IsNotFound_def Let_def call_defs demo_defs)

subsection \<open>A patch body that does not encode\<close>

text \<open>
  C3: in \<open>PatchConfigMap\<close> and in \<open>PatchConfigMapJsonType\<close> the body is encoded once the client
  is built. When \<^verbatim>\<open>json.Marshal\<close> fails there, the method panics with the error of the encoding:
  it returns nothing, and the state is the one the construction left, so no patch is sent.
\<close>

theorem Patch_marshal_failure_panics:
  "(GetClient k clusterConfig s = (Inr client, s1) \<and>
    api_Marshal k (MapStringInterface data) = Inl e \<longrightarrow>
      PatchConfigMap k namespace clusterConfig name data s = (Panic e, s1)) \<and>
   (GetClient k clusterConfig s = (Inr client, s1) \<and>
    api_Marshal k (JsonPatchTypes [\<lparr>Op = ''replace'', Path = path, Value = v\<rparr>]) = Inl e' \<longrightarrow>
      PatchConfigMapJsonType k namespace clusterConfig name v path s = (Panic e', s1))"
  by (simp add: PatchConfigMap_def PatchConfigMapJsonType_def)

text \<open>On the fake cluster, a channel is a value that does not encode.\<close>

theorem Patch_marshal_failure_panics_witness:
  "fst (GetClient fake_k8s demo_config demo_state) = Inr ''cluster.local'' \<and>
   api_Marshal fake_k8s (MapStringInterface [''key'' \<mapsto> GChan]) =
     Inl (ErrorString ''json: unsupported type: chan int'') \<and>
   PatchConfigMap fake_k8s ''default'' demo_config ''devtron-cm'' [''key'' \<mapsto> GChan] demo_state =
     (Panic (ErrorString ''json: unsupported type: chan int''),
      snd (GetClient fake_k8s demo_config demo_state)) \<and>
   api_Marshal fake_k8s (JsonPatchTypes [\<lparr>Op = ''replace'', Path = ''/data/key'', Value = GChan\<rparr>]) =
     Inl (ErrorString ''json: unsupported type: chan int'') \<and>
   PatchConfigMapJsonType fake_k8s ''default'' demo_config ''devtron-cm'' GChan ''/data/key''
       demo_state =
     (Panic (ErrorString ''json: unsupported type: chan int''),
      snd (GetClient fake_k8s demo_config demo_state)) \<and>
   trace (snd (GetClient fake_k8s demo_config demo_state)) =
     [NewForConfigCall
        \<lparr>cfg_Host = ''cluster.local'', cfg_APIPath = [], cfg_GroupVersion = None,
         cfg_NegotiatedSerializer = None, cfg_BearerToken = ''token'', cfg_Insecure = True\<rparr>]"
  using
    Patch_marshal_failure_panics
      [of fake_k8s demo_config demo_state "''cluster.local''"
          "snd (GetClient fake_k8s demo_config demo_state)" "[''key'' \<mapsto> GChan]"
          "ErrorString ''json: unsupported type: chan int''" "''default''" "''devtron-cm''"
          "''/data/key''" GChan "ErrorString ''json: unsupported type: chan int''"]
  by (simp add: GetClient_eq NewForConfig_def invoke_def demo_defs)

subsection \<open>Creating a secret\<close>

text \<open>
  C4: \<open>CreateSecretFast\<close> sends one create request, on the client and in the namespace it is
  given, for a secret named \<^verbatim>\<open>devtron-secret-test\<close> with an empty payload; its result and the
  state it leaves are the same for every username and password.
\<close>

theorem CreateSecretFast_fixed_secret:
  "trace (snd (CreateSecretFast k namespace username password client s)) =
     trace s @
       [SecretsCreateCall client namespace
          \<lparr>secret_ObjectMeta = \<lparr>Name = ''devtron-secret-test'', Namespace = []\<rparr>,
           secret_Data = Map.empty\<rparr>] \<and>
   CreateSecretFast k namespace username password client s =
     CreateSecretFast k namespace username' password' client s"
  by (auto simp: CreateSecretFast_def Secrets_Create_def invoke_def Let_def split: prod.splits)

subsection \<open>Patching a config map\<close>

text \<open>
  C5, as the claim states it, fails: the mapping \<^verbatim>\<open>{key: v}\<close> encodes, and yet for a cluster config
  for which no client can be built \<open>PatchConfigMap\<close> returns the error of the construction
  (lines 179-182) and sends no patch.
\<close>

theorem PatchConfigMap_no_patch_without_client:
  "api_Marshal fake_k8s (MapStringInterface [''key'' \<mapsto> GString ''v'']) = Inr ''{key:v}'' \<and>
   PatchConfigMap fake_k8s ''default'' bad_config ''devtron-cm'' [''key'' \<mapsto> GString ''v''] demo_state =
     (Return (None, Some (ErrorString ''invalid URL escape'')),
      \<lparr>world = [''default''],
       trace =
         [NewForConfigCall
            \<lparr>cfg_Host = ''%'', cfg_APIPath = [], cfg_GroupVersion = None,
             cfg_NegotiatedSerializer = None, cfg_BearerToken = ''token'',
             cfg_Insecure = True\<rparr>]\<rparr>)"
  by (simp add: PatchConfigMap_def GetClient_eq call_defs demo_defs)

text \<open>
  C5, amended: for a mapping that encodes to the bytes \<open>b\<close>, when the construction of the client
  fails \<open>PatchConfigMap\<close> returns its error and sends nothing; when it gives a client, the
  method sends exactly one patch after it, on that client: of type merge patch, with body \<open>b\<close>,
  for the config map of the given name in the given namespace.
\<close>

theorem PatchConfigMap_sends_merge_patch:
  "api_Marshal k (MapStringInterface data) = Inr b \<Longrightarrow>
     (GetClient k clusterConfig s = (Inl e, s1) \<longrightarrow>
        PatchConfigMap k namespace clusterConfig name data s = (Return (None, Some e), s1)) \<and>
     (GetClient k clusterConfig s = (Inr client, s1) \<longrightarrow>
        trace (snd (PatchConfigMap k namespace clusterConfig name data s)) =
          trace s1 @ [ConfigMapsPatchCall client namespace name MergePatchType b])"
  by (auto simp: PatchConfigMap_def ConfigMaps_Patch_def invoke_def split: prod.splits)

theorem PatchConfigMap_sends_merge_patch_witness:
  "api_Marshal fake_k8s (MapStringInterface [''key'' \<mapsto> GString ''v'']) = Inr ''{key:v}'' \<and>
   fst (GetClient fake_k8s bad_config demo_state) = Inl (ErrorString ''invalid URL escape'') \<and>
   fst (PatchConfigMap fake_k8s ''default'' bad_config ''devtron-cm'' [''key'' \<mapsto> GString ''v''] demo_state) =
     Return (None, Some (ErrorString ''invalid URL escape'')) \<and>
   fst (GetClient fake_k8s demo_config demo_state) = Inr ''cluster.local'' \<and>
   trace (snd (PatchConfigMap fake_k8s ''default'' demo_config ''devtron-cm'' [''key'' \<mapsto> GString ''v''] demo_state)) =
     [NewForConfigCall
        \<lparr>cfg_Host = ''cluster.local'', cfg_APIPath = [], cfg_GroupVersion = None,
         cfg_NegotiatedSerializer = None, cfg_BearerToken = ''token'', cfg_Insecure = True\<rparr>,
      ConfigMapsPatchCall ''cluster.local'' ''default'' ''devtron-cm'' MergePatchType ''{key:v}'']"
  using
    PatchConfigMap_sends_merge_patch
      [of fake_k8s "[''key'' \<mapsto> GString ''v'']" "''{key:v}''" bad_config demo_state "ErrorString ''invalid URL escape''"
          "snd (GetClient fake_k8s bad_config demo_state)" "''default''" "''devtron-cm''"]
    PatchConfigMap_sends_merge_patch
      [of fake_k8s "[''key'' \<mapsto> GString ''v'']" "''{key:v}''" demo_config demo_state _
          "snd (GetClient fake_k8s demo_config demo_state)" "''default''" "''devtron-cm''"
          "''cluster.local''"]
  by (simp add: PatchConfigMap_def GetClient_eq call_defs demo_defs)

text \<open>
  C6, as the claim states it, fails in the same way: the value and the path encode, and for a
  cluster config for which no client can be built \<open>PatchConfigMapJsonType\<close> returns the error of
  the construction (lines 197-200) and sends no patch.
\<close>

theorem PatchConfigMapJsonType_no_patch_without_client:
  "api_Marshal fake_k8s
     (JsonPatchTypes [\<lparr>Op = ''replace'', Path = ''/data/key'', Value = GString ''v''\<rparr>]) =
     Inr ''[{op:replace,path:/data/key,value:v}]'' \<and>
   PatchConfigMapJsonType fake_k8s ''default'' bad_config ''devtron-cm'' (GString ''v'')
       ''/data/key'' demo_state =
     (Return (None, Some (ErrorString ''invalid URL escape'')),
      \<lparr>world = [''default''],
       trace =
         [NewForConfigCall
            \<lparr>cfg_Host = ''%'', cfg_APIPath = [], cfg_GroupVersion = None,
             cfg_NegotiatedSerializer = None, cfg_BearerToken = ''token'',
             cfg_Insecure = True\<rparr>]\<rparr>)"
  by (simp add: PatchConfigMapJsonType_def GetClient_eq call_defs demo_defs)

text \<open>
  C6, amended: the list that \<open>PatchConfigMapJsonType\<close> encodes has exactly one operation, with
  \<^verbatim>\<open>op\<close> \<^verbatim>\<open>replace\<close>, the given path and the given value. When it encodes to the bytes \<open>b\<close>: if
  the construction of the client fails, the method returns its error and sends nothing; if it
  gives a client, the method sends exactly one patch after it, on that client: of type JSON
  patch, with body \<open>b\<close>, for the config map of the given name in the given namespace.
\<close>

theorem PatchConfigMapJsonType_sends_one_replace:
  "api_Marshal k (JsonPatchTypes [\<lparr>Op = ''replace'', Path = path, Value = v\<rparr>]) = Inr b \<Longrightarrow>
     (GetClient k clusterConfig s = (Inl e, s1) \<longrightarrow>
        PatchConfigMapJsonType k namespace clusterConfig name v path s =
          (Return (None, Some e), s1)) \<and>
     (GetClient k clusterConfig s = (Inr client, s1) \<longrightarrow>
        trace (snd (PatchConfigMapJsonType k namespace clusterConfig name v path s)) =
          trace s1 @ [ConfigMapsPatchCall client namespace name JSONPatchType b])"
  by (auto simp: PatchConfigMapJsonType_def ConfigMaps_Patch_def invoke_def split: prod.splits)

theorem PatchConfigMapJsonType_sends_one_replace_witness:
  "api_Marshal fake_k8s
     (JsonPatchTypes [\<lparr>Op = ''replace'', Path = ''/data/key'', Value = GString ''v''\<rparr>]) =
     Inr ''[{op:replace,path:/data/key,value:v}]'' \<and>
   fst (GetClient fake_k8s bad_config demo_state) = Inl (ErrorString ''invalid URL escape'') \<and>
   fst (PatchConfigMapJsonType fake_k8s ''default'' bad_config ''devtron-cm'' (GString ''v'')
          ''/data/key'' demo_state) =
     Return (None, Some (ErrorString ''invalid URL escape'')) \<and>
   fst (GetClient fake_k8s demo_config demo_state) = Inr ''cluster.local'' \<and>
   trace (snd (PatchConfigMapJsonType fake_k8s ''default'' demo_config ''devtron-cm'' (GString ''v'')
                 ''/data/key'' demo_state)) =
     [NewForConfigCall
        \<lparr>cfg_Host = ''cluster.local'', cfg_APIPath = [], cfg_GroupVersion = None,
         cfg_NegotiatedSerializer = None, cfg_BearerToken = ''token'', cfg_Insecure = True\<rparr>,
      ConfigMapsPatchCall ''cluster.local'' ''default'' ''devtron-cm'' JSONPatchType ''[{op:replace,path:/data/key,value:v}]'']"
  using
    PatchConfigMapJsonType_sends_one_replace
      [of fake_k8s "''/data/key''" "GString ''v''" "''[{op:replace,path:/data/key,value:v}]''" bad_config demo_state
          "ErrorString ''invalid URL escape''" "snd (GetClient fake_k8s bad_config demo_state)"
          "''default''" "''devtron-cm''"]
    PatchConfigMapJsonType_sends_one_replace
      [of fake_k8s "''/data/key''" "GString ''v''" "''[{op:replace,path:/data/key,value:v}]''" demo_config demo_state _
          "snd (GetClient fake_k8s demo_config demo_state)" "''default''" "''devtron-cm''"
          "''cluster.local''"]
  by (simp add: PatchConfigMapJsonType_def GetClient_eq Let_def call_defs demo_defs)

subsection \<open>The methods that take a client\<close>

text \<open>
  C7: each of \<open>GetConfigMapFast\<close>, \<open>UpdateConfigMapFast\<close>, \<open>GetSecretFast\<close>, \<open>CreateSecretFast\<close>
  and \<open>UpdateSecretFast\<close> adds exactly one event to the trace: its request, on the client that
  the caller supplied. No client is constructed.
\<close>

theorem Fast_variants_use_supplied_client:
  "trace (snd (GetConfigMapFast k namespace name client s)) =
     trace s @ [ConfigMapsGetCall client namespace name] \<and>
   trace (snd (UpdateConfigMapFast k namespace cm client s)) =
     trace s @ [ConfigMapsUpdateCall client namespace cm] \<and>
   trace (snd (GetSecretFast k namespace name client s)) =
     trace s @ [SecretsGetCall client namespace name] \<and>
   trace (snd (CreateSecretFast k namespace username password client s)) =
     trace s @
       [SecretsCreateCall client namespace
          \<lparr>secret_ObjectMeta = \<lparr>Name = ''devtron-secret-test'', Namespace = []\<rparr>,
           secret_Data = Map.empty\<rparr>] \<and>
   trace (snd (UpdateSecretFast k namespace secret client s)) =
     trace s @ [SecretsUpdateCall client namespace secret]"
  by (auto simp: GetConfigMapFast_def UpdateConfigMapFast_def GetSecretFast_def
        CreateSecretFast_def UpdateSecretFast_def Let_def call_defs split: prod.splits)

subsection \<open>Posting an application\<close>

text \<open>
  C8, as the claim states it, fails: for a cluster config for which no REST client can be built,
  \<open>CreateArgoApplication\<close> returns the error of the construction (lines 118-122); nothing is
  posted and no response is logged.
\<close>

theorem CreateArgoApplication_no_post_without_client:
  "CreateArgoApplication fake_k8s ''default'' ''app'' bad_config demo_state =
     (Some (ErrorString ''invalid URL escape''),
      \<lparr>world = [''default''],
       trace =
         [RESTClientForCall
            \<lparr>cfg_Host = ''%'', cfg_APIPath = ''/apis'',
             cfg_GroupVersion = Some \<lparr>Group = ''argoproj.io'', Version = ''v1alpha1''\<rparr>,
             cfg_NegotiatedSerializer = Some CodecFactory_NewScheme, cfg_BearerToken = ''token'',
             cfg_Insecure = True\<rparr>]\<rparr>)"
  by (simp add: CreateArgoApplication_def getargoAppClient_def rest_Config_zero_def call_defs
        demo_defs)

text \<open>
  C8, amended: \<open>CreateArgoApplication\<close> asks for a REST client for the API path \<^verbatim>\<open>/apis\<close>, the
  group \<^verbatim>\<open>argoproj.io\<close> and the version \<^verbatim>\<open>v1alpha1\<close>, with the host and the token of the
  cluster config and without TLS verification. When that construction fails, the method
  returns its error and posts nothing. When it gives a client, the method logs the request,
  sends one POST on that client to the resource \<^verbatim>\<open>applications\<close> in the given namespace with the
  application as the body, unchanged, logs the raw response and the error, and returns the
  error alone.
\<close>

theorem CreateArgoApplication_posts_application:
  "getargoAppClient k clusterConfig s =
     RESTClientFor k
       \<lparr>cfg_Host = Host clusterConfig, cfg_APIPath = ''/apis'',
        cfg_GroupVersion = Some \<lparr>Group = ''argoproj.io'', Version = ''v1alpha1''\<rparr>,
        cfg_NegotiatedSerializer = Some CodecFactory_NewScheme,
        cfg_BearerToken = BearerToken clusterConfig, cfg_Insecure = True\<rparr> s \<and>
   (getargoAppClient k clusterConfig s = (Inl e, s1) \<longrightarrow>
      CreateArgoApplication k namespace application clusterConfig s = (Some e, s1)) \<and>
   (getargoAppClient k clusterConfig s = (Inr client, s1) \<and>
    api_Do_Raw k
      \<lparr>req_client = client, req_verb = ''POST'', req_resource = ''applications'',
       req_namespace = namespace, req_body = Some application\<rparr> (world s1) = ((res, err), w) \<longrightarrow>
      CreateArgoApplication k namespace application clusterConfig s =
        (err,
         \<lparr>world = w,
          trace = trace s1 @
            [Log Info ''creating application'' [(''req'', LString application)],
             DoRawCall
               \<lparr>req_client = client, req_verb = ''POST'', req_resource = ''applications'',
                req_namespace = namespace, req_body = Some application\<rparr>,
             Log Info ''argo app create res'' [(''res'', LString res), (''err'', LError err)]]\<rparr>))"
  by (simp add: CreateArgoApplication_def getargoAppClient_def rest_Config_zero_def Post_def
        Resource_def Namespace_of_def Body_def Do_Raw_def Infow_def invoke_def Let_def)

theorem CreateArgoApplication_posts_application_witness:
  "fst (getargoAppClient fake_k8s bad_config demo_state) = Inl (ErrorString ''invalid URL escape'') \<and>
   fst (CreateArgoApplication fake_k8s ''default'' ''app'' bad_config demo_state) =
     Some (ErrorString ''invalid URL escape'') \<and>
   fst (getargoAppClient fake_k8s demo_config demo_state) = Inr ''cluster.local/apis'' \<and>
   CreateArgoApplication fake_k8s ''default'' ''app'' demo_config demo_state =
     (None,
      \<lparr>world = [''default''],
       trace =
         [RESTClientForCall
            \<lparr>cfg_Host = ''cluster.local'', cfg_APIPath = ''/apis'',
             cfg_GroupVersion = Some \<lparr>Group = ''argoproj.io'', Version = ''v1alpha1''\<rparr>,
             cfg_NegotiatedSerializer = Some CodecFactory_NewScheme, cfg_BearerToken = ''token'',
             cfg_Insecure = True\<rparr>,
          Log Info ''creating application'' [(''req'', LString ''app'')],
          DoRawCall
            \<lparr>req_client = ''cluster.local/apis'', req_verb = ''POST'',
             req_resource = ''applications'', req_namespace = ''default'',
             req_body = Some ''app''\<rparr>,
          Log Info ''argo app create res'' [(''res'', LString ''app''), (''err'', LError None)]]\<rparr>)"
  using
    CreateArgoApplication_posts_application
      [of fake_k8s bad_config demo_state "ErrorString ''invalid URL escape''"
          "snd (getargoAppClient fake_k8s bad_config demo_state)" "''default''" "''app''"]
    CreateArgoApplication_posts_application
      [of fake_k8s demo_config demo_state _
          "snd (getargoAppClient fake_k8s demo_config demo_state)" "''default''" "''app''"
          "''cluster.local/apis''" "''app''" None "[''default'']"]
  by (simp add: RESTClientFor_def invoke_def demo_defs)

subsection \<open>Building a client\<close>

text \<open>
  C9: for every cluster config, \<open>GetClient\<close> makes one call of the constructor, with a config
  that holds the host and the token of the cluster config, \<^verbatim>\<open>Insecure\<close> set, and every other
  field zero; its result is the result of that call, so that it returns an error exactly when
  the constructor does. There is no branch on the config before the call.
\<close>

theorem GetClient_host_token_insecure:
  "fst (GetClient k clusterConfig s) =
     fst (api_NewForConfig k
            \<lparr>cfg_Host = Host clusterConfig, cfg_APIPath = [], cfg_GroupVersion = None,
             cfg_NegotiatedSerializer = None, cfg_BearerToken = BearerToken clusterConfig,
             cfg_Insecure = True\<rparr> (world s)) \<and>
   isl (fst (GetClient k clusterConfig s)) =
     isl (fst (api_NewForConfig k
            \<lparr>cfg_Host = Host clusterConfig, cfg_APIPath = [], cfg_GroupVersion = None,
             cfg_NegotiatedSerializer = None, cfg_BearerToken = BearerToken clusterConfig,
             cfg_Insecure = True\<rparr> (world s))) \<and>
   trace (snd (GetClient k clusterConfig s)) =
     trace s @
       [NewForConfigCall
          \<lparr>cfg_Host = Host clusterConfig, cfg_APIPath = [], cfg_GroupVersion = None,
           cfg_NegotiatedSerializer = None, cfg_BearerToken = BearerToken clusterConfig,
           cfg_Insecure = True\<rparr>]"
  by (simp add: GetClient_eq NewForConfig_def invoke_def split: prod.splits)

subsection \<open>A resource or an error\<close>

text \<open>
  The nine methods that return \<^verbatim>\<open>(*T, error)\<close> end in the same way: the error of the call of
  the client with \<^verbatim>\<open>nil\<close> for the resource, or the object of the call with \<^verbatim>\<open>nil\<close> for the
  error. The four that build their client first return \<^verbatim>\<open>nil\<close> and the error of the
  construction when it fails.
\<close>

lemma GetConfigMapFast_result:
  "fst (GetConfigMapFast k namespace name client s) =
     (case fst (api_ConfigMaps_Get k client namespace name (world s)) of
        (cm, err) \<Rightarrow> if err \<noteq> None then (None, err) else (Some cm, None))"
  by (auto simp: GetConfigMapFast_def ConfigMaps_Get_def invoke_def split: prod.splits)

lemma UpdateConfigMapFast_result:
  "fst (UpdateConfigMapFast k namespace cm client s) =
     (case fst (api_ConfigMaps_Update k client namespace cm (world s)) of
        (cm', err) \<Rightarrow> if err \<noteq> None then (None, err) else (Some cm', None))"
  by (auto simp: UpdateConfigMapFast_def ConfigMaps_Update_def invoke_def split: prod.splits)

lemma GetSecretFast_result:
  "fst (GetSecretFast k namespace name client s) =
     (case fst (api_Secrets_Get k client namespace name (world s)) of
        (secret, err) \<Rightarrow> if err \<noteq> None then (None, err) else (Some secret, None))"
  by (auto simp: GetSecretFast_def Secrets_Get_def invoke_def split: prod.splits)

lemma CreateSecretFast_result:
  "fst (CreateSecretFast k namespace username password client s) =
     (case fst (api_Secrets_Create k client namespace
                  \<lparr>secret_ObjectMeta = \<lparr>Name = ''devtron-secret-test'', Namespace = []\<rparr>,
                   secret_Data = Map.empty\<rparr> (world s)) of
        (secret, err) \<Rightarrow> if err \<noteq> None then (None, err) else (Some secret, None))"
  by (auto simp: CreateSecretFast_def Secrets_Create_def invoke_def Let_def split: prod.splits)

lemma UpdateSecretFast_result:
  "fst (UpdateSecretFast k namespace secret client s) =
     (case fst (api_Secrets_Update k client namespace secret (world s)) of
        (secret', err) \<Rightarrow> if err \<noteq> None then (None, err) else (Some secret', None))"
  by (auto simp: UpdateSecretFast_def Secrets_Update_def invoke_def split: prod.splits)

lemma GetConfigMap_result:
  "fst (GetConfigMap k namespace name clusterConfig s) =
     (case GetClient k clusterConfig s of
        (Inl e, s1) \<Rightarrow> (None, Some e)
      | (Inr client, s1) \<Rightarrow>
          (case fst (api_ConfigMaps_Get k client namespace name (world s1)) of
             (cm, err) \<Rightarrow> if err \<noteq> None then (None, err) else (Some cm, None)))"
  by (auto simp: GetConfigMap_def ConfigMaps_Get_def invoke_def split: prod.splits sum.splits)

lemma UpdateConfigMap_result:
  "fst (UpdateConfigMap k namespace cm clusterConfig s) =
     (case GetClient k clusterConfig s of
        (Inl e, s1) \<Rightarrow> (None, Some e)
      | (Inr client, s1) \<Rightarrow>
          (case fst (api_ConfigMaps_Update k client namespace cm (world s1)) of
             (cm', err) \<Rightarrow> if err \<noteq> None then (None, err) else (Some cm', None)))"
  by (auto simp: UpdateConfigMap_def ConfigMaps_Update_def invoke_def split: prod.splits sum.splits)

lemma PatchConfigMap_result:
  "fst (PatchConfigMap k namespace clusterConfig name data s) =
     (case GetClient k clusterConfig s of
        (Inl e, s1) \<Rightarrow> Return (None, Some e)
      | (Inr client, s1) \<Rightarrow>
          (case api_Marshal k (MapStringInterface data) of
             Inl e \<Rightarrow> Panic e
           | Inr b \<Rightarrow>
               (case fst (api_ConfigMaps_Patch k client namespace name MergePatchType b (world s1)) of
                  (cm, err) \<Rightarrow>
                    if err \<noteq> None then Return (None, err) else Return (Some cm, None))))"
  by (auto simp: PatchConfigMap_def ConfigMaps_Patch_def invoke_def split: prod.splits sum.splits)

lemma PatchConfigMapJsonType_result:
  "fst (PatchConfigMapJsonType k namespace clusterConfig name v path s) =
     (case GetClient k clusterConfig s of
        (Inl e, s1) \<Rightarrow> Return (None, Some e)
      | (Inr client, s1) \<Rightarrow>
          (case api_Marshal k (JsonPatchTypes [\<lparr>Op = ''replace'', Path = path, Value = v\<rparr>]) of
             Inl e \<Rightarrow> Panic e
           | Inr b \<Rightarrow>
               (case fst (api_ConfigMaps_Patch k client namespace name JSONPatchType b (world s1)) of
                  (cm, err) \<Rightarrow>
                    if err \<noteq> None then Return (None, err) else Return (Some cm, None))))"
  by (auto simp: PatchConfigMapJsonType_def ConfigMaps_Patch_def invoke_def Let_def
        split: prod.splits sum.splits)

text \<open>
  C10: every pair that one of the nine methods returns has exactly one component that is not
  \<^verbatim>\<open>nil\<close>, so that the resource is \<^verbatim>\<open>nil\<close> whenever an error is returned; and whenever the error
  is \<^verbatim>\<open>nil\<close>, the resource is the object that the call of the client returned (for the methods
  that build their client: the call on that client, in the state the construction left).
\<close>

theorem resource_xor_error:
  "exactly_one_non_nil (fst (GetConfigMap k namespace name clusterConfig s)) \<and>
   exactly_one_non_nil (fst (GetConfigMapFast k namespace name client s)) \<and>
   exactly_one_non_nil (fst (UpdateConfigMap k namespace cm clusterConfig s)) \<and>
   exactly_one_non_nil (fst (UpdateConfigMapFast k namespace cm client s)) \<and>
   (\<forall>r. fst (PatchConfigMap k namespace clusterConfig name data s) = Return r
      \<longrightarrow> exactly_one_non_nil r) \<and>
   (\<forall>r. fst (PatchConfigMapJsonType k namespace clusterConfig name v path s) = Return r
      \<longrightarrow> exactly_one_non_nil r) \<and>
   exactly_one_non_nil (fst (GetSecretFast k namespace name client s)) \<and>
   exactly_one_non_nil (fst (CreateSecretFast k namespace username password client s)) \<and>
   exactly_one_non_nil (fst (UpdateSecretFast k namespace secret client s)) \<and>
   (GetClient k clusterConfig s = (Inr c, s1) \<and>
    snd (fst (GetConfigMap k namespace name clusterConfig s)) = None \<longrightarrow>
      fst (fst (GetConfigMap k namespace name clusterConfig s)) =
        Some (fst (fst (api_ConfigMaps_Get k c namespace name (world s1))))) \<and>
   (snd (fst (GetConfigMapFast k namespace name client s)) = None \<longrightarrow>
      fst (fst (GetConfigMapFast k namespace name client s)) =
        Some (fst (fst (api_ConfigMaps_Get k client namespace name (world s))))) \<and>
   (GetClient k clusterConfig s = (Inr c, s1) \<and>
    snd (fst (UpdateConfigMap k namespace cm clusterConfig s)) = None \<longrightarrow>
      fst (fst (UpdateConfigMap k namespace cm clusterConfig s)) =
        Some (fst (fst (api_ConfigMaps_Update k c namespace cm (world s1))))) \<and>
   (snd (fst (UpdateConfigMapFast k namespace cm client s)) = None \<longrightarrow>
      fst (fst (UpdateConfigMapFast k namespace cm client s)) =
        Some (fst (fst (api_ConfigMaps_Update k client namespace cm (world s))))) \<and>
   (GetClient k clusterConfig s = (Inr c, s1) \<and>
    api_Marshal k (MapStringInterface data) = Inr b \<and>
    fst (PatchConfigMap k namespace clusterConfig name data s) = Return (res, None) \<longrightarrow>
      res = Some (fst (fst (api_ConfigMaps_Patch k c namespace name MergePatchType b (world s1))))) \<and>
   (GetClient k clusterConfig s = (Inr c, s1) \<and>
    api_Marshal k (JsonPatchTypes [\<lparr>Op = ''replace'', Path = path, Value = v\<rparr>]) = Inr b' \<and>
    fst (PatchConfigMapJsonType k namespace clusterConfig name v path s) = Return (res', None) \<longrightarrow>
      res' = Some (fst (fst (api_ConfigMaps_Patch k c namespace name JSONPatchType b' (world s1))))) \<and>
   (snd (fst (GetSecretFast k namespace name client s)) = None \<longrightarrow>
      fst (fst (GetSecretFast k namespace name client s)) =
        Some (fst (fst (api_Secrets_Get k client namespace name (world s))))) \<and>
   (snd (fst (CreateSecretFast k namespace username password client s)) = None \<longrightarrow>
      fst (fst (CreateSecretFast k namespace username password client s)) =
        Some (fst (fst (api_Secrets_Create k client namespace
                \<lparr>secret_ObjectMeta = \<lparr>Name = ''devtron-secret-test'', Namespace = []\<rparr>,
                 secret_Data = Map.empty\<rparr> (world s))))) \<and>
   (snd (fst (UpdateSecretFast k namespace secret client s)) = None \<longrightarrow>
      fst (fst (UpdateSecretFast k namespace secret client s)) =
        Some (fst (fst (api_Secrets_Update k client namespace secret (world s)))))"
proof (intro conjI allI impI)
  show "exactly_one_non_nil (fst (GetConfigMap k namespace name clusterConfig s))"
    by (auto simp: GetConfigMap_result exactly_one_non_nil_def split: prod.splits sum.splits)
  show "exactly_one_non_nil (fst (GetConfigMapFast k namespace name client s))"
    by (auto simp: GetConfigMapFast_result exactly_one_non_nil_def split: prod.splits)
  show "exactly_one_non_nil (fst (UpdateConfigMap k namespace cm clusterConfig s))"
    by (auto simp: UpdateConfigMap_result exactly_one_non_nil_def split: prod.splits sum.splits)
  show "exactly_one_non_nil (fst (UpdateConfigMapFast k namespace cm client s))"
    by (auto simp: UpdateConfigMapFast_result exactly_one_non_nil_def split: prod.splits)
  show "exactly_one_non_nil (fst (GetSecretFast k namespace name client s))"
    by (auto simp: GetSecretFast_result exactly_one_non_nil_def split: prod.splits)
  show "exactly_one_non_nil (fst (CreateSecretFast k namespace username password client s))"
    by (auto simp: CreateSecretFast_result exactly_one_non_nil_def split: prod.splits)
  show "exactly_one_non_nil (fst (UpdateSecretFast k namespace secret client s))"
    by (auto simp: UpdateSecretFast_result exactly_one_non_nil_def split: prod.splits)
next
  fix r
  assume "fst (PatchConfigMap k namespace clusterConfig name data s) = Return r"
  then show "exactly_one_non_nil r"
    by (auto simp: PatchConfigMap_result exactly_one_non_nil_def
          split: prod.splits sum.splits if_splits)
next
  fix r
  assume "fst (PatchConfigMapJsonType k namespace clusterConfig name v path s) = Return r"
  then show "exactly_one_non_nil r"
    by (auto simp: PatchConfigMapJsonType_result exactly_one_non_nil_def
          split: prod.splits sum.splits if_splits)
next
  assume "GetClient k clusterConfig s = (Inr c, s1) \<and>
    snd (fst (GetConfigMap k namespace name clusterConfig s)) = None"
  then show "fst (fst (GetConfigMap k namespace name clusterConfig s)) =
        Some (fst (fst (api_ConfigMaps_Get k c namespace name (world s1))))"
    by (auto simp: GetConfigMap_result split: prod.splits if_splits)
next
  assume "snd (fst (GetConfigMapFast k namespace name client s)) = None"
  then show "fst (fst (GetConfigMapFast k namespace name client s)) =
        Some (fst (fst (api_ConfigMaps_Get k client namespace name (world s))))"
    by (auto simp: GetConfigMapFast_result split: prod.splits if_splits)
next
  assume "GetClient k clusterConfig s = (Inr c, s1) \<and>
    snd (fst (UpdateConfigMap k namespace cm clusterConfig s)) = None"
  then show "fst (fst (UpdateConfigMap k namespace cm clusterConfig s)) =
        Some (fst (fst (api_ConfigMaps_Update k c namespace cm (world s1))))"
    by (auto simp: UpdateConfigMap_result split: prod.splits if_splits)
next
  assume "snd (fst (UpdateConfigMapFast k namespace cm client s)) = None"
  then show "fst (fst (UpdateConfigMapFast k namespace cm client s)) =
        Some (fst (fst (api_ConfigMaps_Update k client namespace cm (world s))))"
    by (auto simp: UpdateConfigMapFast_result split: prod.splits if_splits)
next
  assume "GetClient k clusterConfig s = (Inr c, s1) \<and>
    api_Marshal k (MapStringInterface data) = Inr b \<and>
    fst (PatchConfigMap k namespace clusterConfig name data s) = Return (res, None)"
  then show "res =
      Some (fst (fst (api_ConfigMaps_Patch k c namespace name MergePatchType b (world s1))))"
    by (auto simp: PatchConfigMap_result split: prod.splits if_splits)
next
  assume "GetClient k clusterConfig s = (Inr c, s1) \<and>
    api_Marshal k (JsonPatchTypes [\<lparr>Op = ''replace'', Path = path, Value = v\<rparr>]) = Inr b' \<and>
    fst (PatchConfigMapJsonType k namespace clusterConfig name v path s) = Return (res', None)"
  then show "res' =
      Some (fst (fst (api_ConfigMaps_Patch k c namespace name JSONPatchType b' (world s1))))"
    by (auto simp: PatchConfigMapJsonType_result split: prod.splits if_splits)
next
  assume "snd (fst (GetSecretFast k namespace name client s)) = None"
  then show "fst (fst (GetSecretFast k namespace name client s)) =
        Some (fst (fst (api_Secrets_Get k client namespace name (world s))))"
    by (auto simp: GetSecretFast_result split: prod.splits if_splits)
next
  assume "snd (fst (CreateSecretFast k namespace username password client s)) = None"
  then show "fst (fst (CreateSecretFast k namespace username password client s)) =
        Some (fst (fst (api_Secrets_Create k client namespace
                \<lparr>secret_ObjectMeta = \<lparr>Name = ''devtron-secret-test'', Namespace = []\<rparr>,
                 secret_Data = Map.empty\<rparr> (world s))))"
    by (auto simp: CreateSecretFast_result split: prod.splits if_splits)
next
  assume "snd (fst (UpdateSecretFast k namespace secret client s)) = None"
  then show "fst (fst (UpdateSecretFast k namespace secret client s)) =
        Some (fst (fst (api_Secrets_Update k client namespace secret (world s))))"
    by (auto simp: UpdateSecretFast_result split: prod.splits if_splits)
qed

text \<open>
  On the fake cluster: in the namespace \<^verbatim>\<open>default\<close> every method returns the object of its call
  and no error; in the namespace \<^verbatim>\<open>dev\<close>, which is not there, and for the host that does not
  parse, it returns \<^verbatim>\<open>nil\<close> and the error.
\<close>

theorem resource_xor_error_witness:
  "fst (GetConfigMap fake_k8s ''default'' ''devtron-cm'' demo_config demo_state) =
     (Some demo_cm, None) \<and>
   fst (GetConfigMapFast fake_k8s ''default'' ''devtron-cm'' ''cluster.local'' demo_state) =
     (Some demo_cm, None) \<and>
   fst (UpdateConfigMap fake_k8s ''default'' demo_cm demo_config demo_state) =
     (Some demo_cm, None) \<and>
   fst (UpdateConfigMapFast fake_k8s ''default'' demo_cm ''cluster.local'' demo_state) =
     (Some demo_cm, None) \<and>
   fst (PatchConfigMap fake_k8s ''default'' demo_config ''devtron-cm'' [''key'' \<mapsto> GString ''v'']
          demo_state) = Return (Some demo_cm, None) \<and>
   fst (PatchConfigMapJsonType fake_k8s ''default'' demo_config ''devtron-cm'' (GString ''v'')
          ''/data/key'' demo_state) = Return (Some demo_cm, None) \<and>
   fst (GetSecretFast fake_k8s ''default'' ''devtron-secret'' ''cluster.local'' demo_state) =
     (Some demo_secret, None) \<and>
   fst (CreateSecretFast fake_k8s ''default'' ''user'' ''password'' ''cluster.local'' demo_state) =
     (Some \<lparr>secret_ObjectMeta = \<lparr>Name = ''devtron-secret-test'', Namespace = ''default''\<rparr>,
            secret_Data = Map.empty\<rparr>, None) \<and>
   fst (UpdateSecretFast fake_k8s ''default'' demo_secret ''cluster.local'' demo_state) =
     (Some demo_secret, None) \<and>
   fst (GetConfigMap fake_k8s ''default'' ''devtron-cm'' bad_config demo_state) =
     (None, Some (ErrorString ''invalid URL escape'')) \<and>
   fst (GetConfigMapFast fake_k8s ''dev'' ''devtron-cm'' ''cluster.local'' demo_state) =
     (None, Some (not_found ''devtron-cm'')) \<and>
   fst (PatchConfigMap fake_k8s ''dev'' demo_config ''devtron-cm'' [''key'' \<mapsto> GString ''v'']
          demo_state) = Return (None, Some (not_found ''devtron-cm''))"
  using
    resource_xor_error
      [where k = fake_k8s and namespace = "''default''" and name = "''devtron-cm''"
         and clusterConfig = demo_config and s = demo_state and client = "''cluster.local''"
         and cm = demo_cm and data = "[''key'' \<mapsto> GString ''v'']" and v = "GString ''v''"
         and path = "''/data/key''" and username = "''user''" and password = "''password''"
         and secret = demo_secret and c = "''cluster.local''"
         and ?s1.0 = "snd (GetClient fake_k8s demo_config demo_state)"
         and b = "''{key:v}''" and res = "Some demo_cm"
         and b' = "''[{op:replace,path:/data/key,value:v}]''" and res' = "Some demo_cm"]
    resource_xor_error
      [where k = fake_k8s and namespace = "''default''" and name = "''devtron-secret''"
         and s = demo_state and client = "''cluster.local''"]
    resource_xor_error
      [where k = fake_k8s and namespace = "''default''" and name = "''devtron-cm''"
         and clusterConfig = bad_config and s = demo_state]
    resource_xor_error
      [where k = fake_k8s and namespace = "''dev''" and name = "''devtron-cm''"
         and clusterConfig = demo_config and s = demo_state and client = "''cluster.local''"
         and data = "[''key'' \<mapsto> GString ''v'']"]
  by (simp add: GetConfigMap_def GetConfigMapFast_def UpdateConfigMap_def UpdateConfigMapFast_def
        PatchConfigMap_def PatchConfigMapJsonType_def GetSecretFast_def CreateSecretFast_def
        UpdateSecretFast_def GetClient_eq Let_def call_defs demo_defs)

end
